theory Spec2Isabelle
  imports Main "HOL-Library.Sublist"
begin

section \<open>Score strings: \<open>getScoreComponents\<close>\<close>

text \<open>
  Both \<open>app.js\<close> files (school-timetabling and bed-allocation) hold the same function:
  \<^verbatim>\<open>
  function getScoreComponents(score) {
    let components = {hard: 0, medium: 0, soft: 0};
    $.each([...score.matchAll(/(-?[0-9]+)(hard|medium|soft)/g)], (i, parts) => {
      components[parts[2]] = parseInt(parts[1], 10);
    });
    return components;
  }
  \<close>
  The three property names are a datatype, the result object a record. JavaScript numbers
  are modelled as \<open>int\<close>: \<open>parseInt\<close> is exact on a digit run of at most 15 digits
  (below \<open>2^53\<close>); on longer runs the JavaScript number is a rounded double, which the
  model does not follow.
\<close>

datatype level = Hard | Medium | Soft

record components =
  hard :: int
  medium :: int
  soft :: int

text \<open>The character class \<open>[0-9]\<close>.\<close>

definition is_digit :: "char \<Rightarrow> bool" where
  "is_digit c \<longleftrightarrow> c \<in> set ''0123456789''"


definition match_level :: "string \<Rightarrow> (level \<times> string) option" where
  "match_level s =
     (if take 4 s = ''hard'' then Some (Hard, drop 4 s)
      else if take 6 s = ''medium'' then Some (Medium, drop 6 s)
      else if take 4 s = ''soft'' then Some (Soft, drop 4 s)
      else None)"

text \<open>
  \<open>[0-9]+\<close> followed by the level group, at the head of a string. The quantifier is greedy;
  giving back digits cannot help, since the character after a shorter run is a digit and no
  level name starts with one.
\<close>

definition match_digits :: "string \<Rightarrow> (string \<times> level \<times> string) option" where
  "match_digits s =
     (let ds = takeWhile is_digit s in
      if ds = [] then None
      else (case match_level (dropWhile is_digit s) of
              None \<Rightarrow> None
            | Some (l, rest) \<Rightarrow> Some (ds, l, rest)))"

text \<open>
  One attempt of the whole pattern at the head of a string: \<open>-?\<close> first takes the sign when
  there is one, and the attempt is repeated without it when the rest fails.
\<close>

definition match_at :: "string \<Rightarrow> (string \<times> level \<times> string) option" where
  "match_at s =
     (case s of
        [] \<Rightarrow> None
      | c # t \<Rightarrow>
          (if c = CHR ''-'' then
             (case match_digits t of
                Some (ds, l, rest) \<Rightarrow> Some (c # ds, l, rest)
              | None \<Rightarrow> match_digits s)
           else match_digits s))"

lemma match_level_shorter:
  "match_level s = Some (l, rest) \<Longrightarrow> length rest \<le> length s"
  by (auto simp: match_level_def split: if_splits)

lemma match_digits_shorter:
  assumes "match_digits s = Some (ds, l, rest)"
  shows "length rest < length s"
proof -
  from assms have ne: "takeWhile is_digit s \<noteq> []"
    and ml: "match_level (dropWhile is_digit s) = Some (l, rest)"
    by (auto simp: match_digits_def Let_def split: if_splits option.splits)
  have "length rest \<le> length (dropWhile is_digit s)"
    using ml by (rule match_level_shorter)
  moreover have "length (takeWhile is_digit s) + length (dropWhile is_digit s) = length s"
    by (metis length_append takeWhile_dropWhile_id)
  moreover have "0 < length (takeWhile is_digit s)"
    using ne by simp
  ultimately show ?thesis by linarith
qed

lemma match_at_shorter:
  "match_at s = Some (num, l, rest) \<Longrightarrow> length rest < length s"
  by (cases s)
     (auto simp: match_at_def split: if_splits option.splits
           dest!: match_digits_shorter)

text \<open>
  \<open>matchAll\<close> with the \<open>g\<close> flag: the leftmost match from the current position, then on
  from the end of that match (a match is never empty). Each entry holds the two groups:
  \<open>parts[1]\<close> and \<open>parts[2]\<close>.
\<close>

function matchAll :: "string \<Rightarrow> (string \<times> level) list" where
  "matchAll [] = []"
| "matchAll (c # s) =
     (case match_at (c # s) of
        Some (num, l, rest) \<Rightarrow> (num, l) # matchAll rest
      | None \<Rightarrow> matchAll s)"
  by pat_completeness auto
termination
  by (relation "measure length") (auto dest: match_at_shorter)

text \<open>
  \<open>parseInt(parts[1], 10)\<close> on a string of the shape \<open>-?[0-9]+\<close>, the only strings
  the pattern hands over: the decimal value of the digits, negated after a minus sign.
\<close>

definition digit_value :: "char \<Rightarrow> int" where
  "digit_value c = int (of_char c) - 48"

definition digits_value :: "string \<Rightarrow> int" where
  "digits_value ds = foldl (\<lambda>acc c. 10 * acc + digit_value c) 0 ds"

definition parseInt10 :: "string \<Rightarrow> int" where
  "parseInt10 s =
     (case s of
        [] \<Rightarrow> 0
      | c # t \<Rightarrow> if c = CHR ''-'' then - digits_value t else digits_value s)"

text \<open>\<open>components[parts[2]] = ...\<close> and \<open>components[e.type]\<close>.\<close>

definition set_component :: "level \<Rightarrow> int \<Rightarrow> components \<Rightarrow> components" where
  "set_component l v c =
     (case l of Hard \<Rightarrow> c\<lparr>hard := v\<rparr> | Medium \<Rightarrow> c\<lparr>medium := v\<rparr> | Soft \<Rightarrow> c\<lparr>soft := v\<rparr>)"

definition get_component :: "level \<Rightarrow> components \<Rightarrow> int" where
  "get_component l c = (case l of Hard \<Rightarrow> hard c | Medium \<Rightarrow> medium c | Soft \<Rightarrow> soft c)"

definition getScoreComponents :: "string \<Rightarrow> components" where
  "getScoreComponents score =
     foldl (\<lambda>c (num, l). set_component l (parseInt10 num) c)
       \<lparr>hard = 0, medium = 0, soft = 0\<rparr> (matchAll score)"


section \<open>The score analysis of \<open>analyze\<close>\<close>

text \<open>
  One entry of \<open>scoreAnalysis.constraints\<close> as the server sends it: \<open>weight\<close> and
  \<open>score\<close> are score strings, \<open>matches\<close> is an array of which only the length is read.
\<close>

record constraint_analysis =
  ca_name :: string
  ca_weight :: string
  ca_score :: string
  ca_matches :: "string list"

text \<open>
  The comparator handed to \<open>constraints.sort\<close>, the same text in both files:
  \<^verbatim>\<open>
  (a, b) => {
    let aComponents = getScoreComponents(a.score), bComponents = getScoreComponents(b.score);
    if (aComponents.hard < 0 && bComponents.hard > 0) return -1;
    if (aComponents.hard > 0 && bComponents.soft < 0) return 1;
    if (Math.abs(aComponents.hard) > Math.abs(bComponents.hard)) {
      return -1;
    } else {
      if (aComponents.medium < 0 && bComponents.medium > 0) return -1;
      if (aComponents.medium > 0 && bComponents.medium < 0) return 1;
      if (Math.abs(aComponents.medium) > Math.abs(bComponents.medium)) {
        return -1;
      } else {
        if (aComponents.soft < 0 && bComponents.soft > 0) return -1;
        if (aComponents.soft > 0 && bComponents.soft < 0) return 1;
        return Math.abs(bComponents.soft) - Math.abs(aComponents.soft);
      }
    }
  }
  \<close>
  A negative result puts \<open>a\<close> before \<open>b\<close>.
\<close>

definition compare_components :: "components \<Rightarrow> components \<Rightarrow> int" where
  "compare_components aComponents bComponents =
     (if hard aComponents < 0 \<and> hard bComponents > 0 then - 1
      else if hard aComponents > 0 \<and> soft bComponents < 0 then 1
      else if \<bar>hard aComponents\<bar> > \<bar>hard bComponents\<bar> then - 1
      else if medium aComponents < 0 \<and> medium bComponents > 0 then - 1
      else if medium aComponents > 0 \<and> medium bComponents < 0 then 1
      else if \<bar>medium aComponents\<bar> > \<bar>medium bComponents\<bar> then - 1
      else if soft aComponents < 0 \<and> soft bComponents > 0 then - 1
      else if soft aComponents > 0 \<and> soft bComponents < 0 then 1
      else \<bar>soft bComponents\<bar> - \<bar>soft aComponents\<bar>)"

definition compare_constraints :: "constraint_analysis \<Rightarrow> constraint_analysis \<Rightarrow> int" where
  "compare_constraints a b =
     compare_components (getScoreComponents (ca_score a)) (getScoreComponents (ca_score b))"

text \<open>
  The order the specification describes, written from its words: within one level a
  negative entry comes before a positive one and otherwise the larger absolute value comes
  first; across levels the order is lexicographic, hard before medium before soft.
\<close>

definition level_precedes :: "int \<Rightarrow> int \<Rightarrow> bool" where
  "level_precedes x y \<longleftrightarrow> (x < 0 \<and> 0 < y) \<or> (\<not> (0 < x \<and> y < 0) \<and> \<bar>x\<bar> > \<bar>y\<bar>)"

definition score_precedes :: "components \<Rightarrow> components \<Rightarrow> bool" where
  "score_precedes a b \<longleftrightarrow>
     level_precedes (hard a) (hard b) \<or>
     (hard a = hard b \<and>
       (level_precedes (medium a) (medium b) \<or>
        (medium a = medium b \<and> level_precedes (soft a) (soft b))))"

text \<open>
  What \<open>constraints.map\<close> writes into each entry: \<open>type\<close>, the numeric \<open>weight\<close>
  (replacing the string) and \<open>implicitScore\<close>.
  \<^verbatim>\<open>
  let components = getScoreComponents(e.weight);
  e.type = components.hard != 0 ? 'hard' : (components.medium != 0 ? 'medium' : 'soft');
  e.weight = components[e.type];
  let scores = getScoreComponents(e.score);
  e.implicitScore = scores.hard != 0 ? scores.hard : (scores.medium != 0 ? scores.medium : scores.soft);
  \<close>
\<close>

record constraint_row =
  row_name :: string
  row_score :: string
  row_matches :: "string list"
  row_type :: level
  row_weight :: int
  row_implicitScore :: int

definition enrich :: "constraint_analysis \<Rightarrow> constraint_row" where
  "enrich e =
     (let components = getScoreComponents (ca_weight e);
          type = (if hard components \<noteq> 0 then Hard
                  else if medium components \<noteq> 0 then Medium else Soft);
          scores = getScoreComponents (ca_score e)
      in \<lparr>row_name = ca_name e,
          row_score = ca_score e,
          row_matches = ca_matches e,
          row_type = type,
          row_weight = get_component type components,
          row_implicitScore =
            (if hard scores \<noteq> 0 then hard scores
             else if medium scores \<noteq> 0 then medium scores else soft scores)\<rparr>)"

text \<open>
  The first cell of a table row. The two HTML snippets are the constructors
  \<open>ExclamationTriangle\<close> (red \<open>fa-exclamation-triangle\<close>) and \<open>CheckCircle\<close>
  (green \<open>fa-check-circle\<close>); \<open>NoIcon\<close> is the empty string, the only falsy one.
  school-timetabling:
  \<^verbatim>\<open>
  let icon = constraintAnalysis.type == "hard" && constraintAnalysis.implicitScore < 0 ? '<span ...triangle...>' : '';
  if (!icon) icon = constraintAnalysis.weight < 0 && constraintAnalysis.matches.length == 0 ? '<span ...check...>' : '';
  \<close>
  bed-allocation has the same first line and tests only \<open>matches.length == 0\<close> in the second.
\<close>

datatype icon = ExclamationTriangle | CheckCircle | NoIcon

definition row_icon_timetabling :: "constraint_row \<Rightarrow> icon" where
  "row_icon_timetabling constraintAnalysis =
     (let icon = (if row_type constraintAnalysis = Hard \<and> row_implicitScore constraintAnalysis < 0
                  then ExclamationTriangle else NoIcon)
      in if icon = NoIcon
         then (if row_weight constraintAnalysis < 0 \<and> length (row_matches constraintAnalysis) = 0
               then CheckCircle else NoIcon)
         else icon)"

definition row_icon_bed :: "constraint_row \<Rightarrow> icon" where
  "row_icon_bed constraintAnalysis =
     (let icon = (if row_type constraintAnalysis = Hard \<and> row_implicitScore constraintAnalysis < 0
                  then ExclamationTriangle else NoIcon)
      in if icon = NoIcon
         then (if length (row_matches constraintAnalysis) = 0 then CheckCircle else NoIcon)
         else icon)"


section \<open>Solve and stop buttons, the auto-refresh interval\<close>

text \<open>
  The same function in both files:
  \<^verbatim>\<open>
  var autoRefreshIntervalId = null;

  function refreshSolvingButtons(solving) {
    if (solving) {
      $("#solveButton").hide();
      $("#stopSolvingButton").show();
      if (autoRefreshIntervalId == null) {
        autoRefreshIntervalId = setInterval(refreshSchedule, 2000);
      }
    } else {
      $("#solveButton").show();
      $("#stopSolvingButton").hide();
      if (autoRefreshIntervalId != null) {
        clearInterval(autoRefreshIntervalId);
        autoRefreshIntervalId = null;
      }
    }
  }
  \<close>
  The state holds the two buttons, the global variable and the browser's side of the
  timers: the list of active intervals (handle and delay in milliseconds; the callback is
  always \<open>refreshSchedule\<close>) and the next handle it will hand out. A handle is a positive
  number, never \<open>null\<close>. No other code of the pages calls \<open>setInterval\<close> or
  \<open>clearInterval\<close>.
\<close>

record solving_ui =
  solveButtonShown :: bool
  stopSolvingButtonShown :: bool
  autoRefreshIntervalId :: "nat option"
  intervals :: "(nat \<times> nat) list"
  nextHandle :: nat

definition setInterval :: "nat \<Rightarrow> solving_ui \<Rightarrow> nat \<times> solving_ui" where
  "setInterval delay st =
     (nextHandle st,
      st\<lparr>intervals := intervals st @ [(nextHandle st, delay)],
         nextHandle := nextHandle st + 1\<rparr>)"

definition clearInterval :: "nat \<Rightarrow> solving_ui \<Rightarrow> solving_ui" where
  "clearInterval h st = st\<lparr>intervals := filter (\<lambda>(h', delay). h' \<noteq> h) (intervals st)\<rparr>"

definition refreshSolvingButtons :: "bool \<Rightarrow> solving_ui \<Rightarrow> solving_ui" where
  "refreshSolvingButtons solving st =
     (if solving then
        (let st1 = st\<lparr>solveButtonShown := False, stopSolvingButtonShown := True\<rparr> in
         (case autoRefreshIntervalId st1 of
            None \<Rightarrow> (let (h, st2) = setInterval 2000 st1 in st2\<lparr>autoRefreshIntervalId := Some h\<rparr>)
          | Some _ \<Rightarrow> st1))
      else
        (let st1 = st\<lparr>solveButtonShown := True, stopSolvingButtonShown := False\<rparr> in
         (case autoRefreshIntervalId st1 of
            Some h \<Rightarrow> (clearInterval h st1)\<lparr>autoRefreshIntervalId := None\<rparr>
          | None \<Rightarrow> st1)))"

text \<open>A sequence of calls, one after the other, with the given arguments.\<close>

definition refreshSolvingButtons_calls :: "bool list \<Rightarrow> solving_ui \<Rightarrow> solving_ui" where
  "refreshSolvingButtons_calls calls st = foldl (\<lambda>s solving. refreshSolvingButtons solving s) st calls"

text \<open>
  The state of a page: the variable and the browser's intervals agree, and the handle in
  the variable is one the browser has handed out.
\<close>

definition interval_consistent :: "solving_ui \<Rightarrow> bool" where
  "interval_consistent st =
     (case autoRefreshIntervalId st of
        None \<Rightarrow> intervals st = []
      | Some h \<Rightarrow> intervals st = [(h, 2000)] \<and> h < nextHandle st)"

text \<open>Solving mode and idle mode of the page, as the two branches leave it.\<close>

definition solving_mode :: "solving_ui \<Rightarrow> bool" where
  "solving_mode st \<longleftrightarrow>
     \<not> solveButtonShown st \<and> stopSolvingButtonShown st \<and>
     (case autoRefreshIntervalId st of None \<Rightarrow> False | Some h \<Rightarrow> intervals st = [(h, 2000)])"

definition idle_mode :: "solving_ui \<Rightarrow> bool" where
  "idle_mode st \<longleftrightarrow>
     solveButtonShown st \<and> \<not> stopSolvingButtonShown st \<and>
     autoRefreshIntervalId st = None \<and> intervals st = []"

text \<open>
  A page as it is loaded: the variable is \<open>null\<close> and no interval runs. Which of the
  two buttons the HTML shows at first is not fixed by the script.
\<close>

definition page_load_ui :: "bool \<Rightarrow> bool \<Rightarrow> solving_ui" where
  "page_load_ui solveShown stopShown =
     \<lparr>solveButtonShown = solveShown, stopSolvingButtonShown = stopShown,
      autoRefreshIntervalId = None, intervals = [], nextHandle = 1\<rparr>"

lemma refreshSolvingButtons_consistent:
  "interval_consistent st \<Longrightarrow> interval_consistent (refreshSolvingButtons solving st)"
  by (auto simp: interval_consistent_def refreshSolvingButtons_def setInterval_def
        clearInterval_def split: option.splits)

lemma refreshSolvingButtons_calls_consistent:
  "interval_consistent st \<Longrightarrow> interval_consistent (refreshSolvingButtons_calls calls st)"
  unfolding refreshSolvingButtons_calls_def
  by (induction calls arbitrary: st) (simp_all add: refreshSolvingButtons_consistent)

lemma refreshSolvingButtons_calls_snoc:
  "refreshSolvingButtons_calls (calls @ [solving]) st =
     refreshSolvingButtons solving (refreshSolvingButtons_calls calls st)"
  by (simp add: refreshSolvingButtons_calls_def)

lemma refreshSolvingButtons_mode:
  "interval_consistent st \<Longrightarrow>
     (if solving then solving_mode (refreshSolvingButtons solving st)
      else idle_mode (refreshSolvingButtons solving st))"
  by (auto simp: interval_consistent_def refreshSolvingButtons_def setInterval_def
        clearInterval_def solving_mode_def idle_mode_def split: option.splits)

section \<open>Lesson colours: \<open>pickColor\<close>\<close>

text \<open>
  school-timetabling only:
  \<^verbatim>\<open>
  const BG_COLORS = [...24 entries...];
  const FG_COLORS = [...24 entries...];
  let COLOR_MAP = new Map()
  let nextColorIndex = 0

  function pickColor(object) {
    let color = COLOR_MAP.get(object);
    if (color !== undefined) {
      return color;
    }
    let index = nextColorIndex++;
    color = {bg : BG_COLORS[index], fg: FG_COLORS[index]};
    COLOR_MAP.set(object,color);
    return color;
  }
  \<close>
  The \<open>Map\<close> is an association list in insertion order. Reading an array past its end
  gives \<open>undefined\<close>, here \<open>None\<close>; a stored colour is an object and never
  \<open>undefined\<close>.
\<close>

definition BG_COLORS :: "string list" where
  "BG_COLORS = [''#009E73'', ''#0072B2'', ''#D55E00'', ''#000000'', ''#CC79A7'', ''#E69F00'',
     ''#F0E442'', ''#F6768E'', ''#C10020'', ''#A6BDD7'', ''#803E75'', ''#007D34'', ''#56B4E9'',
     ''#999999'', ''#8DD3C7'', ''#FFD92F'', ''#B3DE69'', ''#FB8072'', ''#80B1D3'', ''#B15928'',
     ''#CAB2D6'', ''#1B9E77'', ''#E7298A'', ''#6A3D9A'']"

definition FG_COLORS :: "string list" where
  "FG_COLORS = [''#FFFFFF'', ''#FFFFFF'', ''#FFFFFF'', ''#FFFFFF'', ''#FFFFFF'', ''#000000'',
     ''#000000'', ''#FFFFFF'', ''#FFFFFF'', ''#000000'', ''#FFFFFF'', ''#FFFFFF'', ''#FFFFFF'',
     ''#000000'', ''#000000'', ''#000000'', ''#000000'', ''#FFFFFF'', ''#000000'', ''#FFFFFF'',
     ''#000000'', ''#FFFFFF'', ''#FFFFFF'', ''#FFFFFF'']"

record color =
  bg :: "string option"
  fg :: "string option"

record 'k color_state =
  COLOR_MAP :: "('k \<times> color) list"
  nextColorIndex :: nat

text \<open>\<open>xs[i]\<close> on an array.\<close>

definition array_get :: "'a list \<Rightarrow> nat \<Rightarrow> 'a option" where
  "array_get xs i = (if i < length xs then Some (xs ! i) else None)"

definition palette_at :: "nat \<Rightarrow> color" where
  "palette_at index = \<lparr>bg = array_get BG_COLORS index, fg = array_get FG_COLORS index\<rparr>"

definition pickColor :: "'k \<Rightarrow> 'k color_state \<Rightarrow> color \<times> 'k color_state" where
  "pickColor object st =
     (case map_of (COLOR_MAP st) object of
        Some color \<Rightarrow> (color, st)
      | None \<Rightarrow>
          (let index = nextColorIndex st;
               color = \<lparr>bg = array_get BG_COLORS index, fg = array_get FG_COLORS index\<rparr>
           in (color, st\<lparr>COLOR_MAP := COLOR_MAP st @ [(object, color)],
                         nextColorIndex := index + 1\<rparr>)))"

text \<open>Calls one after the other, with the colours they return.\<close>

definition pickColor_calls :: "'k list \<Rightarrow> 'k color_state \<Rightarrow> color list \<times> 'k color_state" where
  "pickColor_calls objects st =
     foldl (\<lambda>(results, s) object. let (color, s') = pickColor object s in (results @ [color], s'))
       ([], st) objects"

definition fresh_colors :: "'k color_state" where
  "fresh_colors = \<lparr>COLOR_MAP = [], nextColorIndex = 0\<rparr>"

text \<open>
  Notions to state what a sequence of calls returns: the position of the first call with a
  key, and the number of distinct keys among the first \<open>j\<close> calls.
\<close>

definition first_call :: "'k list \<Rightarrow> 'k \<Rightarrow> nat" where
  "first_call objects k = length (takeWhile (\<lambda>x. x \<noteq> k) objects)"

definition keys_before :: "'k list \<Rightarrow> nat \<Rightarrow> nat" where
  "keys_before objects j = length (remdups (take j objects))"

definition palette_rank :: "'k list \<Rightarrow> 'k \<Rightarrow> nat" where
  "palette_rank objects k = keys_before objects (first_call objects k)"

text \<open>Twenty-five distinct keys and a repeated one, to run the calls on.\<close>

definition keys25 :: "nat list" where
  "keys25 = [0, 1, 2, 3, 4, 5, 6, 7, 8, 9, 10, 11, 12, 13, 14, 15, 16, 17, 18, 19, 20, 21, 22, 23, 24, 7]"

lemma length_BG_COLORS: "length BG_COLORS = 24"
  by (simp add: BG_COLORS_def)

lemma length_FG_COLORS: "length FG_COLORS = 24"
  by (simp add: FG_COLORS_def)

lemma palette_at_defined:
  "(bg (palette_at n) \<noteq> None \<and> fg (palette_at n) \<noteq> None) = (n < 24)"
  "(palette_at n = \<lparr>bg = None, fg = None\<rparr>) = (24 \<le> n)"
  by (auto simp: palette_at_def array_get_def length_BG_COLORS length_FG_COLORS)

lemma pickColor_calls_snoc:
  "pickColor_calls (objects @ [k]) st =
     (let (results, s) = pickColor_calls objects st; (color, s') = pickColor k s
      in (results @ [color], s'))"
  by (simp add: pickColor_calls_def split: prod.splits)

lemma first_call_snoc:
  "x \<in> set objects \<Longrightarrow> first_call (objects @ [k]) x = first_call objects x"
  by (simp add: first_call_def takeWhile_append1)

lemma first_call_less: "x \<in> set objects \<Longrightarrow> first_call objects x < length objects"
  unfolding first_call_def
  by (induction objects) auto

lemma palette_rank_snoc_old:
  assumes "x \<in> set objects"
  shows "palette_rank (objects @ [k]) x = palette_rank objects x"
  using assms first_call_less [OF assms]
  by (simp add: palette_rank_def keys_before_def first_call_snoc)

lemma palette_rank_snoc_new:
  assumes "k \<notin> set objects"
  shows "palette_rank (objects @ [k]) k = length (remdups objects)"
proof -
  have "takeWhile (\<lambda>x. x \<noteq> k) (objects @ [k]) = objects"
    using assms by (induction objects) auto
  then show ?thesis
    by (simp add: palette_rank_def keys_before_def first_call_def)
qed

text \<open>What the state holds after the calls for \<open>objects\<close>, starting from the loaded page.\<close>

definition colors_after :: "'k list \<Rightarrow> color list \<Rightarrow> 'k color_state \<Rightarrow> bool" where
  "colors_after objects results st \<longleftrightarrow>
     length results = length objects \<and>
     nextColorIndex st = length (remdups objects) \<and>
     (\<forall>k. map_of (COLOR_MAP st) k =
            (if k \<in> set objects then Some (palette_at (palette_rank objects k)) else None)) \<and>
     (\<forall>j < length objects. results ! j = palette_at (palette_rank objects (objects ! j)))"

lemma colors_after_step:
  assumes inv: "colors_after objects results st"
    and step: "pickColor k st = (color, st')"
  shows "colors_after (objects @ [k]) (results @ [color]) st'"
proof (cases "k \<in> set objects")
  case True
  with inv have stored: "map_of (COLOR_MAP st) k = Some (palette_at (palette_rank objects k))"
    by (simp add: colors_after_def)
  with step have c: "color = palette_at (palette_rank objects k)" and s: "st' = st"
    by (auto simp: pickColor_def)
  have len: "length (remdups (objects @ [k])) = length (remdups objects)"
    using True by (simp add: length_remdups_card_conv insert_absorb)
  show ?thesis
    unfolding colors_after_def
  proof (intro conjI allI impI)
    show "length (results @ [color]) = length (objects @ [k])"
      using inv by (simp add: colors_after_def)
    show "nextColorIndex st' = length (remdups (objects @ [k]))"
      using inv len s by (simp add: colors_after_def)
    show "map_of (COLOR_MAP st') x =
        (if x \<in> set (objects @ [k]) then Some (palette_at (palette_rank (objects @ [k]) x)) else None)" for x
      using inv True s by (auto simp: colors_after_def palette_rank_snoc_old)
    show "(results @ [color]) ! j = palette_at (palette_rank (objects @ [k]) ((objects @ [k]) ! j))"
      if "j < length (objects @ [k])" for j
    proof (cases "j < length objects")
      case True
      then show ?thesis
        using inv by (simp add: colors_after_def nth_append palette_rank_snoc_old)
    next
      case False
      with that have "j = length objects" by simp
      then show ?thesis
        using inv c True by (simp add: colors_after_def nth_append palette_rank_snoc_old)
    qed
  qed
next
  case False
  with inv have absent: "map_of (COLOR_MAP st) k = None"
    by (simp add: colors_after_def)
  from inv have idx: "nextColorIndex st = length (remdups objects)"
    by (simp add: colors_after_def)
  from step absent idx have c: "color = palette_at (length (remdups objects))"
    and s: "st' = st\<lparr>COLOR_MAP := COLOR_MAP st @ [(k, color)],
                      nextColorIndex := length (remdups objects) + 1\<rparr>"
    by (auto simp: pickColor_def palette_at_def Let_def)
  have len: "length (remdups (objects @ [k])) = length (remdups objects) + 1"
    using False by (simp add: length_remdups_card_conv)
  show ?thesis
    unfolding colors_after_def
  proof (intro conjI allI impI)
    show "length (results @ [color]) = length (objects @ [k])"
      using inv by (simp add: colors_after_def)
    show "nextColorIndex st' = length (remdups (objects @ [k]))"
      using len s by simp
    show "map_of (COLOR_MAP st') x =
        (if x \<in> set (objects @ [k]) then Some (palette_at (palette_rank (objects @ [k]) x)) else None)" for x
      using inv False s c
      by (auto simp: colors_after_def palette_rank_snoc_old palette_rank_snoc_new map_add_def
            split: option.splits)
    show "(results @ [color]) ! j = palette_at (palette_rank (objects @ [k]) ((objects @ [k]) ! j))"
      if "j < length (objects @ [k])" for j
    proof (cases "j < length objects")
      case True
      then show ?thesis
        using inv by (simp add: colors_after_def nth_append palette_rank_snoc_old)
    next
      case F: False
      with that have "j = length objects" by simp
      then show ?thesis
        using inv c False by (simp add: colors_after_def nth_append palette_rank_snoc_new)
    qed
  qed
qed

lemma colors_after_calls:
  "colors_after objects (fst (pickColor_calls objects fresh_colors))
     (snd (pickColor_calls objects fresh_colors))"
proof (induction objects rule: rev_induct)
  case Nil
  show ?case by (simp add: colors_after_def pickColor_calls_def fresh_colors_def)
next
  case (snoc k objects)
  obtain results st where r: "pickColor_calls objects fresh_colors = (results, st)"
    by (cases "pickColor_calls objects fresh_colors")
  obtain color st' where p: "pickColor k st = (color, st')"
    by (cases "pickColor k st")
  from snoc r have "colors_after objects results st" by simp
  then have "colors_after (objects @ [k]) (results @ [color]) st'"
    using p by (rule colors_after_step)
  then show ?case
    by (simp add: pickColor_calls_snoc r p)
qed


lemma takeWhile_until_first:
  "k \<notin> set pre \<Longrightarrow> takeWhile (\<lambda>x. x \<noteq> k) (pre @ k # post) = pre"
  by (induction pre) auto

lemma first_call_first:
  assumes "j < length objects" and "objects ! j \<notin> set (take j objects)"
  shows "first_call objects (objects ! j) = j"
proof -
  have split: "objects = take j objects @ objects ! j # drop (Suc j) objects"
    using assms(1) by (rule id_take_nth_drop)
  have "takeWhile (\<lambda>x. x \<noteq> objects ! j) (take j objects @ objects ! j # drop (Suc j) objects)
          = take j objects"
    using assms(2) by (rule takeWhile_until_first)
  with split have "takeWhile (\<lambda>x. x \<noteq> objects ! j) objects = take j objects"
    by simp
  then show ?thesis
    using assms(1) by (simp add: first_call_def)
qed

section \<open>Schedules and the rendering of a timetable\<close>

text \<open>
  The JSON a page loads. Both applications read \<open>solverStatus\<close> and \<open>score\<close>; a
  \<open>null\<close> or absent property is \<open>None\<close>. A timetable (school-timetabling) adds lessons,
  rooms and timeslots; in the JSON \<open>lesson.timeslot\<close> and \<open>lesson.room\<close> are the ids of
  these objects, or \<open>null\<close>. Ids are written into strings by template literals and are
  strings here.
\<close>

record schedule =
  solverStatus :: "string option"
  score :: "string option"

record timeslot =
  timeslot_id :: string
  dayOfWeek :: string
  startTime :: string
  endTime :: string

record room =
  room_id :: string
  room_name :: string

record lesson =
  lesson_id :: string
  subject :: string
  teacher :: string
  studentGroup :: string
  timeslot :: "string option"
  room :: "string option"

record timetable = schedule +
  lessons :: "lesson list"
  rooms :: "room list"
  timeslots :: "timeslot list"

text \<open>
  \<^verbatim>\<open>
  function convertToId(str) {
    // Base64 encoding without padding to avoid XSS
    return btoa(str).replace(/=/g, "");
  }
  \<close>
  \<open>btoa\<close> is the browser's Base64 encoder of a string of characters below 256, which is
  what a \<open>string\<close> of HOL is.
\<close>

definition base64_alphabet :: string where
  "base64_alphabet = ''ABCDEFGHIJKLMNOPQRSTUVWXYZabcdefghijklmnopqrstuvwxyz0123456789+/''"

definition base64_digit :: "nat \<Rightarrow> char" where
  "base64_digit n = base64_alphabet ! (n mod 64)"

fun btoa :: "string \<Rightarrow> string" where
  "btoa [] = []"
| "btoa [a] =
     (let x = (of_char a :: nat)
      in [base64_digit (x div 4), base64_digit ((x mod 4) * 16), CHR ''='', CHR ''=''])"
| "btoa [a, b] =
     (let x = (of_char a :: nat); y = (of_char b :: nat)
      in [base64_digit (x div 4), base64_digit ((x mod 4) * 16 + y div 16),
          base64_digit ((y mod 16) * 4), CHR ''=''])"
| "btoa (a # b # c # rest) =
     (let x = (of_char a :: nat); y = (of_char b :: nat); z = (of_char c :: nat)
      in [base64_digit (x div 4), base64_digit ((x mod 4) * 16 + y div 16),
          base64_digit ((y mod 16) * 4 + z div 64), base64_digit (z mod 64)] @ btoa rest)"

definition convertToId :: "string \<Rightarrow> string" where
  "convertToId str = filter (\<lambda>c. c \<noteq> CHR ''='') (btoa str)"

text \<open>
  \<open>[...new Set(xs)]\<close>: the distinct elements in the order of their first occurrence.
\<close>

fun new_Set :: "'a list \<Rightarrow> 'a list" where
  "new_Set [] = []"
| "new_Set (x # xs) = x # filter (\<lambda>y. y \<noteq> x) (new_Set xs)"

text \<open>
  The card built for a lesson, and the children of the \<open>#unassignedLessons\<close> panel: a
  column holding a card, or the banner "All lessons have been assigned!". A clone of a card
  is the same value.
\<close>

record lesson_card =
  card_bg :: "string option"
  card_fg :: "string option"
  card_title :: string
  card_teacher :: string
  card_lesson_id :: string
  card_studentGroup :: string

datatype panel_child = Lesson_column lesson_card | All_assigned_banner

text \<open>
  The part of the page \<open>renderSchedule\<close> works on. \<open>cells\<close> are the \<open><td>\<close> elements
  of the three tables by their \<open>id\<close>, each with the cards appended to it; an id without a
  cell is \<open>None\<close>. Of the \<open>#info\<close> sentence the three numbers are kept, of the table
  heads the names; the row titles, which go through the JSJoda time formatter, are left out.
\<close>

record timetable_page =
  ui :: solving_ui
  colors :: "string color_state"
  score_text :: string
  info_counts :: "nat \<times> nat \<times> nat"
  headerRowByRoom :: "string list"
  headerRowByTeacher :: "string list"
  headerRowByStudentGroup :: "string list"
  cells :: "string \<Rightarrow> lesson_card list option"
  unassignedLessons :: "panel_child list"

datatype js_error = TypeError | Selector_not_an_id string

text \<open>
  \<open>$("#" + id)\<close>. jQuery looks an element up by its id when the selector has the shape
  \<open>#[\w-]+\<close>; any other string goes to its CSS selector engine, which reads characters
  such as \<open>+\<close>, \<open>/\<close>, a dot or a blank as syntax and may throw. The model follows the first
  case only and ends the call at a selector of the second kind. An \<open>append\<close> on an empty
  selection does nothing.
\<close>

definition word_char :: "char \<Rightarrow> bool" where
  "word_char c \<longleftrightarrow>
     c \<in> set ''ABCDEFGHIJKLMNOPQRSTUVWXYZabcdefghijklmnopqrstuvwxyz0123456789_-''"

definition plain_id :: "string \<Rightarrow> bool" where
  "plain_id s \<longleftrightarrow> s \<noteq> [] \<and> list_all word_char s"

definition append_by_id ::
  "string \<Rightarrow> lesson_card \<Rightarrow> timetable_page \<Rightarrow> js_error option \<times> timetable_page" where
  "append_by_id i element pg =
     (if \<not> plain_id i then (Some (Selector_not_an_id i), pg)
      else (case cells pg i of
              None \<Rightarrow> (None, pg)
            | Some children \<Rightarrow> (None, pg\<lparr>cells := (cells pg)(i \<mapsto> children @ [element])\<rparr>)))"

text \<open>The ids the three tables give to their cells, for one lesson and for a whole timetable.\<close>

definition room_cell_id :: "string \<Rightarrow> string \<Rightarrow> string" where
  "room_cell_id t r = ''timeslot'' @ t @ ''room'' @ r"

definition teacher_cell_id :: "string \<Rightarrow> string \<Rightarrow> string" where
  "teacher_cell_id t name = ''timeslot'' @ t @ ''teacher'' @ convertToId name"

definition studentGroup_cell_id :: "string \<Rightarrow> string \<Rightarrow> string" where
  "studentGroup_cell_id t name = ''timeslot'' @ t @ ''studentGroup'' @ convertToId name"

definition table_cell_ids :: "timetable \<Rightarrow> string list" where
  "table_cell_ids tt =
     (let teachers = new_Set (map teacher (lessons tt));
          studentGroups = new_Set (map studentGroup (lessons tt))
      in concat (map (\<lambda>ts.
           map (\<lambda>r. room_cell_id (timeslot_id ts) (room_id r)) (rooms tt) @
           map (\<lambda>name. teacher_cell_id (timeslot_id ts) name) teachers @
           map (\<lambda>name. studentGroup_cell_id (timeslot_id ts) name) studentGroups)
         (timeslots tt)))"

text \<open>
  The body of \<open>$.each(timetable.lessons, (index, lesson) => {...})\<close>:
  \<^verbatim>\<open>
  const color = pickColor(lesson.subject);
  const lessonElement = $(`<div class="card" style="background-color: ${color.bg};color: ${color.fg}"/>`)...;
  if (lesson.timeslot == null || lesson.room == null) {
    unassignedLessons.append($(`<div class="col"/>`).append(lessonElement));
  } else {
    $(`#timeslot${lesson.timeslot}room${lesson.room}`).append(lessonElement.clone());
    $(`#timeslot${lesson.timeslot}teacher${convertToId(lesson.teacher)}`).append(lessonElement.clone());
    $(`#timeslot${lesson.timeslot}studentGroup${convertToId(lesson.studentGroup)}`).append(lessonElement.clone());
  }
  \<close>
  The result is the exception that ended the call, if any, and the page as the call left it.
\<close>

definition lessonElement_of :: "lesson \<Rightarrow> color \<Rightarrow> lesson_card" where
  "lessonElement_of l color =
     \<lparr>card_bg = bg color, card_fg = fg color, card_title = subject l,
      card_teacher = ''by '' @ teacher l, card_lesson_id = lesson_id l,
      card_studentGroup = studentGroup l\<rparr>"

definition place_lesson :: "lesson \<Rightarrow> timetable_page \<Rightarrow> js_error option \<times> timetable_page" where
  "place_lesson l pg =
     (let (color, colors') = pickColor (subject l) (colors pg);
          pg1 = pg\<lparr>colors := colors'\<rparr>;
          lessonElement = lessonElement_of l color
      in (case (timeslot l, room l) of
            (Some t, Some r) \<Rightarrow>
              (case append_by_id (room_cell_id t r) lessonElement pg1 of
                 (Some e, pg2) \<Rightarrow> (Some e, pg2)
               | (None, pg2) \<Rightarrow>
                   (case append_by_id (teacher_cell_id t (teacher l)) lessonElement pg2 of
                      (Some e, pg3) \<Rightarrow> (Some e, pg3)
                    | (None, pg3) \<Rightarrow>
                        append_by_id (studentGroup_cell_id t (studentGroup l)) lessonElement pg3))
          | _ \<Rightarrow>
              (None, pg1\<lparr>unassignedLessons := unassignedLessons pg1 @ [Lesson_column lessonElement]\<rparr>)))"

fun place_lessons :: "lesson list \<Rightarrow> timetable_page \<Rightarrow> js_error option \<times> timetable_page" where
  "place_lessons [] pg = (None, pg)"
| "place_lessons (l # ls) pg =
     (case place_lesson l pg of
        (Some e, pg') \<Rightarrow> (Some e, pg')
      | (None, pg') \<Rightarrow> place_lessons ls pg')"

text \<open>
  \<open>renderSchedule(timetable)\<close> of school-timetabling: the buttons, the score line, the
  info line, the three tables emptied and rebuilt with one cell per timeslot and column, the
  lessons, and the banner when the panel has no child.
  \<^verbatim>\<open>
  refreshSolvingButtons(timetable.solverStatus != null && timetable.solverStatus !== "NOT_SOLVING");
  $("#score").text("Score: " + (timetable.score == null ? "?" : timetable.score));
  ...
  if (unassignedLessons.children().length === 0) { ... unassignedLessons.append(banner); }
  \<close>
\<close>

definition is_solving :: "string option \<Rightarrow> bool" where
  "is_solving status \<longleftrightarrow> status \<noteq> None \<and> status \<noteq> Some ''NOT_SOLVING''"

definition renderSchedule :: "timetable \<Rightarrow> timetable_page \<Rightarrow> js_error option \<times> timetable_page" where
  "renderSchedule tt pg =
     (let pg1 = pg\<lparr>ui := refreshSolvingButtons (is_solving (solverStatus tt)) (ui pg),
                    score_text := ''Score: '' @ (case score tt of None \<Rightarrow> ''?'' | Some s \<Rightarrow> s),
                    info_counts := (length (lessons tt), length (rooms tt), length (timeslots tt)),
                    headerRowByRoom := map room_name (rooms tt),
                    headerRowByTeacher := new_Set (map teacher (lessons tt)),
                    headerRowByStudentGroup := new_Set (map studentGroup (lessons tt)),
                    cells := (\<lambda>i. if i \<in> set (table_cell_ids tt) then Some [] else None),
                    unassignedLessons := []\<rparr>
      in (case place_lessons (lessons tt) pg1 of
            (Some e, pg2) \<Rightarrow> (Some e, pg2)
          | (None, pg2) \<Rightarrow>
              (if length (unassignedLessons pg2) = 0
               then (None, pg2\<lparr>unassignedLessons := unassignedLessons pg2 @ [All_assigned_banner]\<rparr>)
               else (None, pg2))))"





text \<open>
  bed-allocation. Its \<open>renderSchedule\<close> starts with the same two statements and then
  hands the schedule to \<open>renderScheduleByRoom\<close>, which fills a vis.js timeline and the
  panel of unassigned patients and touches neither buttons nor interval; it is a parameter
  here, working on its own part of the page.
  \<^verbatim>\<open>
  function renderSchedule(schedule) {
    refreshSolvingButtons(schedule.solverStatus != null && schedule.solverStatus !== "NOT_SOLVING");
    $("#score").text("Score: " + (schedule.score == null ? "?" : schedule.score));
    $("#info").text(`This dataset has ${schedule.stays.length} stays and ${schedule.departments.flatMap(d => d.rooms).length} beds across ${schedule.departments.length} departments.`);
    if (viewType === "R") {
      renderScheduleByRoom(schedule);
    }
  }
  \<close>
\<close>

record bed =
  bed_id :: string
  indexInRoom :: nat

record bed_room =
  bed_room_id :: string
  bed_room_name :: string
  equipments :: "string list"
  beds :: "bed list"

record department =
  department_rooms :: "bed_room list"

record stay =
  stay_id :: string
  patientName :: string
  stay_bed :: "string option"

record bed_schedule = schedule +
  stays :: "stay list"
  departments :: "department list"

record 'v bed_page =
  bed_ui :: solving_ui
  bed_score_text :: string
  bed_info_counts :: "nat \<times> nat \<times> nat"
  viewType :: string
  byRoomView :: 'v

definition renderSchedule_bed ::
  "(bed_schedule \<Rightarrow> 'v \<Rightarrow> 'v) \<Rightarrow> bed_schedule \<Rightarrow> 'v bed_page \<Rightarrow> 'v bed_page" where
  "renderSchedule_bed renderScheduleByRoom sch pg =
     (let pg1 = pg\<lparr>bed_ui := refreshSolvingButtons (is_solving (solverStatus sch)) (bed_ui pg),
                    bed_score_text := ''Score: '' @ (case score sch of None \<Rightarrow> ''?'' | Some s \<Rightarrow> s),
                    bed_info_counts :=
                      (length (stays sch),
                       length (concat (map department_rooms (departments sch))),
                       length (departments sch))\<rparr>
      in if viewType pg1 = ''R''
         then pg1\<lparr>byRoomView := renderScheduleByRoom sch (byRoomView pg1)\<rparr>
         else pg1)"

text \<open>Pages as loaded, and small schedules to run the functions on.\<close>

definition loaded_page :: timetable_page where
  "loaded_page =
     \<lparr>ui = page_load_ui True False, colors = fresh_colors, score_text = [],
      info_counts = (0, 0, 0), headerRowByRoom = [], headerRowByTeacher = [],
      headerRowByStudentGroup = [], cells = (\<lambda>i. None), unassignedLessons = []\<rparr>"

definition example_timetable :: timetable where
  "example_timetable =
     \<lparr>solverStatus = Some ''SOLVING_ACTIVE'', score = Some ''-1hard/0soft'',
      lessons =
        [\<lparr>lesson_id = ''1'', subject = ''Math'', teacher = ''A. Turing'',
          studentGroup = ''9th grade'', timeslot = Some ''1'', room = Some ''2''\<rparr>,
         \<lparr>lesson_id = ''2'', subject = ''Math'', teacher = ''A. Turing'',
          studentGroup = ''9th grade'', timeslot = None, room = Some ''2''\<rparr>],
      rooms = [\<lparr>room_id = ''2'', room_name = ''Room A''\<rparr>],
      timeslots = [\<lparr>timeslot_id = ''1'', dayOfWeek = ''MONDAY'', startTime = ''08:30:00'',
                    endTime = ''09:30:00''\<rparr>]\<rparr>"


definition unsolved_timetable :: timetable where
  "unsolved_timetable =
     \<lparr>solverStatus = Some ''NOT_SOLVING'', score = None,
      lessons =
        [\<lparr>lesson_id = ''1'', subject = ''Math'', teacher = ''A. Turing'',
          studentGroup = ''9th grade'', timeslot = None, room = None\<rparr>],
      rooms = [\<lparr>room_id = ''2'', room_name = ''Room A''\<rparr>],
      timeslots = [\<lparr>timeslot_id = ''1'', dayOfWeek = ''MONDAY'', startTime = ''08:30:00'',
                    endTime = ''09:30:00''\<rparr>]\<rparr>"

definition example_bed_schedule :: bed_schedule where
  "example_bed_schedule =
     \<lparr>solverStatus = None, score = None, stays = [], departments = []\<rparr>"

definition loaded_bed_page :: "unit bed_page" where
  "loaded_bed_page =
     \<lparr>bed_ui = page_load_ui True False, bed_score_text = [], bed_info_counts = (0, 0, 0),
      viewType = ''R'', byRoomView = ()\<rparr>"










lemma append_by_id_ui: "ui (snd (append_by_id i element pg)) = ui pg"
  by (simp add: append_by_id_def split: option.splits)

lemma place_lesson_ui: "ui (snd (place_lesson l pg)) = ui pg"
  by (auto simp: place_lesson_def append_by_id_def Let_def split: prod.splits option.splits)

lemma place_lessons_ui: "ui (snd (place_lessons ls pg)) = ui pg"
proof (induction ls arbitrary: pg)
  case Nil
  show ?case by simp
next
  case (Cons l ls)
  obtain e pg' where p: "place_lesson l pg = (e, pg')"
    by (cases "place_lesson l pg")
  have "ui pg' = ui pg"
    using place_lesson_ui [of l pg] p by simp
  then show ?case
    using Cons.IH [of pg'] p by (cases e) simp_all
qed

lemma renderSchedule_ui:
  "ui (snd (renderSchedule tt pg)) = refreshSolvingButtons (is_solving (solverStatus tt)) (ui pg)"
proof -
  let ?pg1 = "pg\<lparr>ui := refreshSolvingButtons (is_solving (solverStatus tt)) (ui pg),
                    score_text := ''Score: '' @ (case score tt of None \<Rightarrow> ''?'' | Some s \<Rightarrow> s),
                    info_counts := (length (lessons tt), length (rooms tt), length (timeslots tt)),
                    headerRowByRoom := map room_name (rooms tt),
                    headerRowByTeacher := new_Set (map teacher (lessons tt)),
                    headerRowByStudentGroup := new_Set (map studentGroup (lessons tt)),
                    cells := (\<lambda>i. if i \<in> set (table_cell_ids tt) then Some [] else None),
                    unassignedLessons := []\<rparr>"
  have "ui (snd (place_lessons (lessons tt) ?pg1)) = ui ?pg1"
    by (rule place_lessons_ui)
  then show ?thesis
    by (auto simp: renderSchedule_def Let_def split: prod.splits option.splits)
qed

lemma renderSchedule_bed_ui:
  "bed_ui (renderSchedule_bed byRoom sch pg) =
     refreshSolvingButtons (is_solving (solverStatus sch)) (bed_ui pg)"
  by (simp add: renderSchedule_bed_def Let_def)

lemma modes_exclusive: "solving_mode st \<Longrightarrow> \<not> idle_mode st"
  by (simp add: solving_mode_def idle_mode_def)



section \<open>The \<open>analyze\<close> operation of the pages\<close>

text \<open>
  The two files differ in the URL and in the second icon line only.
\<close>

datatype app = School_timetabling | Bed_allocation

definition analyze_url :: "app \<Rightarrow> string" where
  "analyze_url a =
     (case a of School_timetabling \<Rightarrow> ''/timetables/analyze'' | Bed_allocation \<Rightarrow> ''/schedules/analyze'')"

definition row_icon :: "app \<Rightarrow> constraint_row \<Rightarrow> icon" where
  "row_icon a = (case a of School_timetabling \<Rightarrow> row_icon_timetabling | Bed_allocation \<Rightarrow> row_icon_bed)"

text \<open>
  The part of the page \<open>analyze\<close> works on: the global \<open>loadedSchedule\<close> (set by
  \<open>refreshSchedule\<close>, \<open>null\<close> until the first schedule has arrived), the modal, the
  content element \<open>#scoreAnalysisModalContent\<close> with its text and its child elements (the
  tables appended to it), the label \<open>#scoreAnalysisScoreLabel\<close>, and the titles of the
  error toasts of \<open>showError\<close>. A table is the list of its body rows.
\<close>

record table_row =
  cell_icon :: icon
  cell_name :: string
  cell_type :: level
  cell_matches :: nat
  cell_weight :: int
  cell_score :: int

record 's analysis_page =
  loadedSchedule :: "'s option"
  modal_shown :: bool
  content_text :: string
  content_tables :: "table_row list list"
  scoreLabel :: string
  notifications :: "string list"

definition no_score_message :: string where
  "no_score_message = ''No score to analyze yet, please first press the 'solve' button.''"

text \<open>
  The synchronous part of \<open>analyze()\<close>:
  \<^verbatim>\<open>
  new bootstrap.Modal("#scoreAnalysisModal").show()
  const scoreAnalysisModalContent = $("#scoreAnalysisModalContent");
  scoreAnalysisModalContent.children().remove();
  if (loadedSchedule.score == null) {
    scoreAnalysisModalContent.text("No score to analyze yet, please first press the 'solve' button.");
  } else {
    $('#scoreAnalysisScoreLabel').text(`(${loadedSchedule.score})`);
    $.put("/timetables/analyze", JSON.stringify(loadedSchedule), function (scoreAnalysis) {...})
      .fail(function (xhr, ajaxOptions, thrownError) { showError("Analyze failed.", xhr); }, "text");
  }
  \<close>
  The result is the exception thrown, if any (reading \<open>.score\<close> of \<open>null\<close>), the page, and
  the request sent, if any: its URL and the schedule that is serialised as its body.
\<close>

definition analyze ::
  "app \<Rightarrow> ('m schedule_scheme) analysis_page \<Rightarrow>
     js_error option \<times> ('m schedule_scheme) analysis_page \<times> (string \<times> 'm schedule_scheme) option" where
  "analyze a pg =
     (let pg1 = pg\<lparr>modal_shown := True, content_tables := []\<rparr> in
      (case loadedSchedule pg1 of
         None \<Rightarrow> (Some TypeError, pg1, None)
       | Some sch \<Rightarrow>
           (case score sch of
              None \<Rightarrow> (None, pg1\<lparr>content_text := no_score_message, content_tables := []\<rparr>, None)
            | Some sc \<Rightarrow>
                (None, pg1\<lparr>scoreLabel := ''('' @ sc @ '')''\<rparr>, Some (analyze_url a, sch)))))"

text \<open>
  The callback for the reply, on the \<open>constraints\<close> array of the reply: the array is
  sorted, each entry gets its three fields, and the table is built from the entries.
  \<open>Array.prototype.sort\<close> is a parameter: with a comparator that is not a consistent
  order the result is left to the implementation.
  \<^verbatim>\<open>
  let constraints = scoreAnalysis.constraints;
  constraints.sort((a, b) => {...});
  constraints.map((e) => {...});
  scoreAnalysis.constraints = constraints;
  scoreAnalysisModalContent.children().remove();
  scoreAnalysisModalContent.text("");
  ... $.each(scoreAnalysis.constraints, (index, constraintAnalysis) => { ... row ... });
  scoreAnalysisModalContent.append(analysisTable);
  \<close>
  The second component of the result is the array as the callback leaves it.
\<close>

definition table_row_of :: "app \<Rightarrow> constraint_row \<Rightarrow> table_row" where
  "table_row_of a constraintAnalysis =
     \<lparr>cell_icon = row_icon a constraintAnalysis,
      cell_name = row_name constraintAnalysis,
      cell_type = row_type constraintAnalysis,
      cell_matches = length (row_matches constraintAnalysis),
      cell_weight = row_weight constraintAnalysis,
      cell_score = row_implicitScore constraintAnalysis\<rparr>"

definition analyze_done ::
  "app \<Rightarrow> ((constraint_analysis \<Rightarrow> constraint_analysis \<Rightarrow> int) \<Rightarrow> constraint_analysis list \<Rightarrow> constraint_analysis list)
     \<Rightarrow> constraint_analysis list \<Rightarrow> 's analysis_page \<Rightarrow> 's analysis_page \<times> constraint_row list" where
  "analyze_done a sort_impl scoreAnalysis_constraints pg =
     (let constraints = sort_impl compare_constraints scoreAnalysis_constraints;
          constraints' = map enrich constraints;
          analysisTable = map (table_row_of a) constraints'
      in (pg\<lparr>content_text := [], content_tables := [analysisTable]\<rparr>, constraints'))"

text \<open>The callback for a failed request: \<open>showError("Analyze failed.", xhr)\<close>.\<close>

definition analyze_fail :: "'s analysis_page \<Rightarrow> 's analysis_page" where
  "analyze_fail pg = pg\<lparr>notifications := notifications pg @ [''Analyze failed.'']\<rparr>"

text \<open>
  One sorting procedure to run the callback with: stable insertion, as engines use on
  short arrays.
\<close>

fun insert_by :: "('a \<Rightarrow> 'a \<Rightarrow> int) \<Rightarrow> 'a \<Rightarrow> 'a list \<Rightarrow> 'a list" where
  "insert_by cmp x [] = [x]"
| "insert_by cmp x (y # ys) = (if cmp x y \<le> 0 then x # y # ys else y # insert_by cmp x ys)"

definition insertion_sort :: "('a \<Rightarrow> 'a \<Rightarrow> int) \<Rightarrow> 'a list \<Rightarrow> 'a list" where
  "insertion_sort cmp xs = foldr (insert_by cmp) xs []"

definition loaded_analysis_page :: "'s \<Rightarrow> 's analysis_page" where
  "loaded_analysis_page sch =
     \<lparr>loadedSchedule = Some sch, modal_shown = False, content_text = [], content_tables = [],
      scoreLabel = [], notifications = []\<rparr>"

definition example_constraints :: "constraint_analysis list" where
  "example_constraints =
     [\<lparr>ca_name = ''Teacher room stability'', ca_weight = ''0hard/-1soft'', ca_score = ''0hard/-3soft'',
       ca_matches = [''m1'', ''m2'', ''m3'']\<rparr>,
      \<lparr>ca_name = ''Room conflict'', ca_weight = ''-1hard/0soft'', ca_score = ''-2hard/0soft'',
       ca_matches = [''m4'', ''m5'']\<rparr>,
      \<lparr>ca_name = ''Teacher conflict'', ca_weight = ''-1hard/0soft'', ca_score = ''0hard/0soft'',
       ca_matches = []\<rparr>]"


section \<open>Claims about the buttons and the interval\<close>

text \<open>
  Claim C10: across any sequence of \<open>refreshSolvingButtons\<close> calls at most one
  auto-refresh interval is active. After each call the variable \<open>autoRefreshIntervalId\<close>
  is set exactly when that call's argument was true; a call with \<open>solving = true\<close> while
  an interval exists keeps that interval and creates no second one; a call with
  \<open>solving = false\<close> leaves no interval and the variable \<open>null\<close>. The sequence starts
  from a state in which variable and intervals agree, as on a loaded page.
\<close>

theorem refreshSolvingButtons_single_interval:
  assumes "interval_consistent st0"
  shows "refreshSolvingButtons_calls (calls @ [solving]) st0 =
           refreshSolvingButtons solving (refreshSolvingButtons_calls calls st0)
    \<and> length (intervals (refreshSolvingButtons_calls (calls @ [solving]) st0)) \<le> 1
    \<and> (autoRefreshIntervalId (refreshSolvingButtons_calls (calls @ [solving]) st0) \<noteq> None
          \<longleftrightarrow> solving)
    \<and> (solving \<and> autoRefreshIntervalId (refreshSolvingButtons_calls calls st0) \<noteq> None \<longrightarrow>
          intervals (refreshSolvingButtons_calls (calls @ [solving]) st0) =
            intervals (refreshSolvingButtons_calls calls st0)
          \<and> autoRefreshIntervalId (refreshSolvingButtons_calls (calls @ [solving]) st0) =
            autoRefreshIntervalId (refreshSolvingButtons_calls calls st0))
    \<and> (\<not> solving \<longrightarrow>
          autoRefreshIntervalId (refreshSolvingButtons_calls (calls @ [solving]) st0) = None
          \<and> intervals (refreshSolvingButtons_calls (calls @ [solving]) st0) = [])"
proof -
  define before where "before = refreshSolvingButtons_calls calls st0"
  have c: "interval_consistent before"
    unfolding before_def using assms by (rule refreshSolvingButtons_calls_consistent)
  have snoc: "refreshSolvingButtons_calls (calls @ [solving]) st0 = refreshSolvingButtons solving before"
    by (simp add: before_def refreshSolvingButtons_calls_snoc)
  show ?thesis
    unfolding snoc before_def[symmetric] using c
    by (auto simp: interval_consistent_def refreshSolvingButtons_def setInterval_def
          clearInterval_def split: option.splits)
qed

theorem refreshSolvingButtons_single_interval_witness:
  "interval_consistent (page_load_ui True False)
   \<and> intervals (refreshSolvingButtons_calls ([True] @ [True]) (page_load_ui True False)) = [(1, 2000)]
   \<and> autoRefreshIntervalId (refreshSolvingButtons_calls ([True] @ [True]) (page_load_ui True False)) = Some 1
   \<and> intervals (refreshSolvingButtons_calls ([True, True] @ [False]) (page_load_ui True False)) = []
   \<and> autoRefreshIntervalId (refreshSolvingButtons_calls ([True, True] @ [False]) (page_load_ui True False)) = None"
proof -
  have h: "interval_consistent (page_load_ui True False)"
    by (simp add: interval_consistent_def page_load_ui_def)
  show ?thesis
    using h refreshSolvingButtons_single_interval [OF h, of "[True]" True]
      refreshSolvingButtons_single_interval [OF h, of "[True, True]" False]
    by (simp add: refreshSolvingButtons_calls_def refreshSolvingButtons_def setInterval_def
          clearInterval_def page_load_ui_def)
qed

text \<open>
  Claim C6: for every schedule rendered by \<open>renderSchedule\<close> (either application) the
  page is in solving mode, with the solve button hidden, the stop button shown and one
  interval of 2000 ms running, if and only if \<open>solverStatus\<close> is not \<open>null\<close> and differs
  from \<open>"NOT_SOLVING"\<close>; otherwise it is in idle mode, with the solve button shown, the
  stop button hidden and no interval. The page it is rendered on is one in which variable
  and intervals agree, as every page reached from a loaded one is.
\<close>

theorem renderSchedule_solving_mode:
  assumes "interval_consistent (ui pg)" and "interval_consistent (bed_ui bpg)"
  shows "(solving_mode (ui (snd (renderSchedule tt pg)))
            \<longleftrightarrow> solverStatus tt \<noteq> None \<and> solverStatus tt \<noteq> Some ''NOT_SOLVING'')
    \<and> (idle_mode (ui (snd (renderSchedule tt pg)))
            \<longleftrightarrow> \<not> (solverStatus tt \<noteq> None \<and> solverStatus tt \<noteq> Some ''NOT_SOLVING''))
    \<and> (solving_mode (bed_ui (renderSchedule_bed byRoom sch bpg))
            \<longleftrightarrow> solverStatus sch \<noteq> None \<and> solverStatus sch \<noteq> Some ''NOT_SOLVING'')
    \<and> (idle_mode (bed_ui (renderSchedule_bed byRoom sch bpg))
            \<longleftrightarrow> \<not> (solverStatus sch \<noteq> None \<and> solverStatus sch \<noteq> Some ''NOT_SOLVING''))"
proof -
  have m: "if b then solving_mode (refreshSolvingButtons b st) \<and> \<not> idle_mode (refreshSolvingButtons b st)
           else idle_mode (refreshSolvingButtons b st) \<and> \<not> solving_mode (refreshSolvingButtons b st)"
    if "interval_consistent st" for b st
    using refreshSolvingButtons_mode [OF that, of b] modes_exclusive by auto
  show ?thesis
    using m [OF assms(1), of "is_solving (solverStatus tt)"]
      m [OF assms(2), of "is_solving (solverStatus sch)"]
    by (simp add: renderSchedule_ui renderSchedule_bed_ui is_solving_def split: if_splits)
qed


theorem renderSchedule_solving_mode_witness:
  "interval_consistent (ui loaded_page) \<and> interval_consistent (bed_ui loaded_bed_page)
   \<and> solving_mode (ui (snd (renderSchedule example_timetable loaded_page)))
   \<and> idle_mode (bed_ui (renderSchedule_bed (\<lambda>sch v. v) example_bed_schedule loaded_bed_page))"
proof -
  have h1: "interval_consistent (ui loaded_page)"
    by (simp add: loaded_page_def page_load_ui_def interval_consistent_def)
  have h2: "interval_consistent (bed_ui loaded_bed_page)"
    by (simp add: loaded_bed_page_def page_load_ui_def interval_consistent_def)
  have s1: "solverStatus example_timetable = Some ''SOLVING_ACTIVE''"
    by (simp add: example_timetable_def)
  have s2: "solverStatus example_bed_schedule = None"
    by (simp add: example_bed_schedule_def)
  show ?thesis
    using renderSchedule_solving_mode [OF h1 h2, of example_timetable "\<lambda>sch v. v" example_bed_schedule]
      h1 h2 s1 s2
    by simp
qed

section \<open>Claim about the colours\<close>

text \<open>
  Claim C9: \<open>pickColor\<close> is a memoized total map. In any sequence of calls on a loaded
  page, a call with a key seen before returns the colour of that key's first call; a first
  call with a new key takes the next palette index, which is the number of distinct keys
  seen before it; the colour has both fields defined when that number is below 24, and both
  fields \<open>undefined\<close> from the 25th distinct key on. The index counts the distinct keys.
\<close>

theorem pickColor_memoized:
  assumes "j < length objects"
  shows "(\<forall>i\<le>j. objects ! i = objects ! j \<longrightarrow>
            fst (pickColor_calls objects fresh_colors) ! j =
            fst (pickColor_calls objects fresh_colors) ! i)
    \<and> (objects ! j \<notin> set (take j objects) \<longrightarrow>
          fst (pickColor_calls objects fresh_colors) ! j = palette_at (keys_before objects j)
          \<and> (keys_before objects j < 24 \<longrightarrow>
                bg (fst (pickColor_calls objects fresh_colors) ! j) \<noteq> None
                \<and> fg (fst (pickColor_calls objects fresh_colors) ! j) \<noteq> None)
          \<and> (24 \<le> keys_before objects j \<longrightarrow>
                fst (pickColor_calls objects fresh_colors) ! j = \<lparr>bg = None, fg = None\<rparr>))
    \<and> nextColorIndex (snd (pickColor_calls objects fresh_colors)) = length (remdups objects)"
proof -
  let ?results = "fst (pickColor_calls objects fresh_colors)"
  have inv: "colors_after objects ?results (snd (pickColor_calls objects fresh_colors))"
    by (rule colors_after_calls)
  have at: "?results ! i = palette_at (palette_rank objects (objects ! i))" if "i < length objects" for i
    using inv that by (simp add: colors_after_def)
  have memo: "\<forall>i\<le>j. objects ! i = objects ! j \<longrightarrow> ?results ! j = ?results ! i"
    using at assms by simp
  have first: "?results ! j = palette_at (keys_before objects j)"
    if "objects ! j \<notin> set (take j objects)"
    using at [OF assms] first_call_first [OF assms that] by (simp add: palette_rank_def)
  have idx: "nextColorIndex (snd (pickColor_calls objects fresh_colors)) = length (remdups objects)"
    using inv by (simp add: colors_after_def)
  show ?thesis
    using memo first idx palette_at_defined by auto
qed

theorem pickColor_memoized_witness:
  "24 < length keys25
   \<and> fst (pickColor_calls keys25 fresh_colors) ! 24 = \<lparr>bg = None, fg = None\<rparr>
   \<and> 25 < length keys25
   \<and> fst (pickColor_calls keys25 fresh_colors) ! 25 = fst (pickColor_calls keys25 fresh_colors) ! 7
   \<and> bg (fst (pickColor_calls keys25 fresh_colors) ! 23) \<noteq> None
   \<and> fg (fst (pickColor_calls keys25 fresh_colors) ! 23) \<noteq> None
   \<and> nextColorIndex (snd (pickColor_calls keys25 fresh_colors)) = 25"
proof -
  have a: "24 < length keys25" and a': "25 < length keys25" and a'': "23 < length keys25"
    by (simp_all add: keys25_def)
  have b: "keys25 ! 24 \<notin> set (take 24 keys25)"
    by (simp add: keys25_def)
  have c: "24 \<le> keys_before keys25 24"
    by (simp add: keys25_def keys_before_def)
  have b': "keys25 ! 23 \<notin> set (take 23 keys25)"
    by (simp add: keys25_def)
  have c': "keys_before keys25 23 < 24"
    by (simp add: keys25_def keys_before_def)
  have d: "keys25 ! 7 = keys25 ! 25"
    by (simp add: keys25_def)
  have e: "length (remdups keys25) = 25"
    by (simp add: keys25_def)
  have r24: "fst (pickColor_calls keys25 fresh_colors) ! 24 = \<lparr>bg = None, fg = None\<rparr>"
    using pickColor_memoized [OF a] b c by blast
  have r25: "fst (pickColor_calls keys25 fresh_colors) ! 25 = fst (pickColor_calls keys25 fresh_colors) ! 7"
    using pickColor_memoized [OF a'] d by auto
  have r23: "bg (fst (pickColor_calls keys25 fresh_colors) ! 23) \<noteq> None
      \<and> fg (fst (pickColor_calls keys25 fresh_colors) ! 23) \<noteq> None"
    using pickColor_memoized [OF a''] b' c' by blast
  have n: "nextColorIndex (snd (pickColor_calls keys25 fresh_colors)) = 25"
    using pickColor_memoized [OF a] e by simp
  show ?thesis
    using a a' r24 r25 r23 n by simp
qed


section \<open>Claim about the placing of lessons\<close>






section \<open>Claims about \<open>analyze\<close>\<close>

text \<open>
  Claim C2 as stated (on a loaded schedule whose \<open>score\<close> is \<open>null\<close>, \<open>analyze\<close> still
  performs the evaluation and produces the breakdown) fails on the code: for such a
  schedule the function writes its message into the modal and sends no request.
\<close>

theorem analyze_without_score_counterexample:
  "score unsolved_timetable = None
   \<and> analyze School_timetabling (loaded_analysis_page unsolved_timetable) =
       (None,
        (loaded_analysis_page unsolved_timetable)
          \<lparr>modal_shown := True, content_text := no_score_message\<rparr>,
        None)"
  by (simp add: analyze_def loaded_analysis_page_def unsolved_timetable_def)

text \<open>
  Claim C2, amended. On a page with a loaded schedule, \<open>analyze\<close> sends the schedule to the
  analyze endpoint if and only if its \<open>score\<close> is not \<open>null\<close>, whatever the solver status;
  with a \<open>null\<close> score it shows "No score to analyze yet, please first press the 'solve'
  button." and sends nothing. The reply to a request is rendered as one table with a row
  per constraint.
\<close>

theorem analyze_needs_score:
  assumes "loadedSchedule pg = Some sch"
  shows "(score sch = None \<longrightarrow>
            analyze a pg =
              (None, pg\<lparr>modal_shown := True, content_tables := [], content_text := no_score_message\<rparr>,
               None))
    \<and> (\<forall>sc. score sch = Some sc \<longrightarrow>
            analyze a pg =
              (None, pg\<lparr>modal_shown := True, content_tables := [], scoreLabel := ''('' @ sc @ '')''\<rparr>,
               Some (analyze_url a, sch)))
    \<and> content_tables (fst (analyze_done a sort_impl cs pg')) =
          [map (\<lambda>e. table_row_of a (enrich e)) (sort_impl compare_constraints cs)]"
  using assms by (simp add: analyze_def analyze_done_def Let_def)

theorem analyze_needs_score_witness:
  "loadedSchedule (loaded_analysis_page example_timetable) = Some example_timetable
   \<and> score example_timetable = Some ''-1hard/0soft''
   \<and> snd (snd (analyze School_timetabling (loaded_analysis_page example_timetable))) =
        Some (''/timetables/analyze'', example_timetable)
   \<and> loadedSchedule (loaded_analysis_page unsolved_timetable) = Some unsolved_timetable
   \<and> score unsolved_timetable = None
   \<and> snd (snd (analyze School_timetabling (loaded_analysis_page unsolved_timetable))) = None
   \<and> content_text (fst (snd (analyze School_timetabling (loaded_analysis_page unsolved_timetable)))) =
        no_score_message"
proof -
  have h: "loadedSchedule (loaded_analysis_page example_timetable) = Some example_timetable"
    and h': "loadedSchedule (loaded_analysis_page unsolved_timetable) = Some unsolved_timetable"
    by (simp_all add: loaded_analysis_page_def)
  have s: "score example_timetable = Some ''-1hard/0soft''"
    by (simp add: example_timetable_def)
  have s': "score unsolved_timetable = None"
    by (simp add: unsolved_timetable_def)
  have with_score:
    "snd (snd (analyze School_timetabling (loaded_analysis_page example_timetable))) =
        Some (''/timetables/analyze'', example_timetable)"
    using analyze_needs_score [OF h, where a = School_timetabling and sort_impl = insertion_sort
        and cs = "[]" and pg' = "loaded_analysis_page example_timetable"] s
    by (simp add: analyze_url_def)
  have without_score:
    "snd (snd (analyze School_timetabling (loaded_analysis_page unsolved_timetable))) = None
     \<and> content_text (fst (snd (analyze School_timetabling (loaded_analysis_page unsolved_timetable)))) =
        no_score_message"
    using analyze_needs_score [OF h', where a = School_timetabling and sort_impl = insertion_sort
        and cs = "[]" and pg' = "loaded_analysis_page unsolved_timetable"] s'
    by simp
  from h s with_score h' s' without_score show ?thesis by blast
qed

text \<open>
  Claim C7: \<open>analyze\<close> never changes the schedule it explains. After the call, and after
  either callback, \<open>loadedSchedule\<close> is what it was, and the request body is that
  schedule; what changes is the score analysis of the reply, whose constraints are the
  sorted entries, each with \<open>type\<close>, numeric \<open>weight\<close> and \<open>implicitScore\<close> added and its
  name, score and matches kept.
\<close>

theorem analyze_keeps_schedule:
  "loadedSchedule (fst (snd (analyze a pg))) = loadedSchedule pg
   \<and> (case snd (snd (analyze a pg)) of
         None \<Rightarrow> True
       | Some (url, body) \<Rightarrow> loadedSchedule pg = Some body)
   \<and> loadedSchedule (fst (analyze_done a sort_impl cs pg)) = loadedSchedule pg
   \<and> loadedSchedule (analyze_fail pg) = loadedSchedule pg
   \<and> snd (analyze_done a sort_impl cs pg) = map enrich (sort_impl compare_constraints cs)
   \<and> row_name (enrich e) = ca_name e
   \<and> row_score (enrich e) = ca_score e
   \<and> row_matches (enrich e) = ca_matches e"
  by (auto simp: analyze_def analyze_done_def analyze_fail_def enrich_def Let_def
        split: option.splits)

text \<open>
  Claim C4: in every table \<open>analyze\<close> renders, in either application, a row has the
  warning icon if and only if the type derived for its constraint is hard and its implicit
  score is negative; a row of a medium or soft constraint never has it.
\<close>

theorem warning_icon_iff_hard_negative:
  "\<forall>analysisTable\<in>set (content_tables (fst (analyze_done a sort_impl cs pg))).
     \<forall>row\<in>set analysisTable.
       (cell_icon row = ExclamationTriangle \<longleftrightarrow> cell_type row = Hard \<and> cell_score row < 0)
       \<and> (cell_type row = Medium \<or> cell_type row = Soft \<longrightarrow> cell_icon row \<noteq> ExclamationTriangle)"
proof -
  have "(row_icon a r = ExclamationTriangle \<longleftrightarrow> row_type r = Hard \<and> row_implicitScore r < 0)" for r
    by (cases a) (simp_all add: row_icon_def row_icon_timetabling_def row_icon_bed_def Let_def)
  then show ?thesis
    by (auto simp: analyze_done_def Let_def table_row_of_def)
qed

theorem warning_icon_iff_hard_negative_witness:
  "hd (content_tables (fst (analyze_done School_timetabling insertion_sort example_constraints
         (loaded_analysis_page example_timetable))))
     \<in> set (content_tables (fst (analyze_done School_timetabling insertion_sort example_constraints
         (loaded_analysis_page example_timetable))))
   \<and> hd (tl (hd (content_tables (fst (analyze_done School_timetabling insertion_sort
         example_constraints (loaded_analysis_page example_timetable))))))
     \<in> set (hd (content_tables (fst (analyze_done School_timetabling insertion_sort
         example_constraints (loaded_analysis_page example_timetable)))))
   \<and> cell_type (hd (tl (hd (content_tables (fst (analyze_done School_timetabling insertion_sort
         example_constraints (loaded_analysis_page example_timetable))))))) = Hard
   \<and> cell_score (hd (tl (hd (content_tables (fst (analyze_done School_timetabling insertion_sort
         example_constraints (loaded_analysis_page example_timetable))))))) = - 2
   \<and> cell_icon (hd (tl (hd (content_tables (fst (analyze_done School_timetabling insertion_sort
         example_constraints (loaded_analysis_page example_timetable))))))) = ExclamationTriangle
   \<and> hd (hd (content_tables (fst (analyze_done School_timetabling insertion_sort
         example_constraints (loaded_analysis_page example_timetable)))))
     \<in> set (hd (content_tables (fst (analyze_done School_timetabling insertion_sort
         example_constraints (loaded_analysis_page example_timetable)))))
   \<and> cell_type (hd (hd (content_tables (fst (analyze_done School_timetabling insertion_sort
         example_constraints (loaded_analysis_page example_timetable)))))) = Soft
   \<and> cell_icon (hd (hd (content_tables (fst (analyze_done School_timetabling insertion_sort
         example_constraints (loaded_analysis_page example_timetable)))))) \<noteq> ExclamationTriangle"
proof -
  let ?tables = "content_tables (fst (analyze_done School_timetabling insertion_sort
         example_constraints (loaded_analysis_page example_timetable)))"
  have t: "?tables =
     [[\<lparr>cell_icon = row_icon School_timetabling (enrich (example_constraints ! 0)),
        cell_name = ''Teacher room stability'',
        cell_type = Soft, cell_matches = 3, cell_weight = - 1, cell_score = - 3\<rparr>,
       \<lparr>cell_icon = row_icon School_timetabling (enrich (example_constraints ! 1)),
        cell_name = ''Room conflict'',
        cell_type = Hard, cell_matches = 2, cell_weight = - 1, cell_score = - 2\<rparr>,
       \<lparr>cell_icon = row_icon School_timetabling (enrich (example_constraints ! 2)),
        cell_name = ''Teacher conflict'',
        cell_type = Hard, cell_matches = 0, cell_weight = - 1, cell_score = 0\<rparr>]]"
    by code_simp
  have m1: "hd ?tables \<in> set ?tables" and m2: "hd (tl (hd ?tables)) \<in> set (hd ?tables)"
    and ty: "cell_type (hd (tl (hd ?tables))) = Hard"
    and sc: "cell_score (hd (tl (hd ?tables))) = - 2"
    and m3: "hd (hd ?tables) \<in> set (hd ?tables)"
    and ty3: "cell_type (hd (hd ?tables)) = Soft"
    by (simp_all add: t)
  note rows = warning_icon_iff_hard_negative [of School_timetabling insertion_sort
      example_constraints "loaded_analysis_page example_timetable"]
  from rows m1 m2 ty sc
  have hard_row: "cell_icon (hd (tl (hd ?tables))) = ExclamationTriangle"
    by auto
  from rows m1 m3 ty3
  have soft_row: "cell_icon (hd (hd ?tables)) \<noteq> ExclamationTriangle"
    by blast
  from m1 m2 ty sc hard_row m3 ty3 soft_row show ?thesis by blast
qed

section \<open>Claim about score strings\<close>


































section \<open>The comparator against the lexicographic order\<close>

lemma components_0hard_m5soft:
  "getScoreComponents ''0hard/-5soft'' = \<lparr>hard = 0, medium = 0, soft = - 5\<rparr>"
  by code_simp

lemma components_m1hard_0soft:
  "getScoreComponents ''-1hard/0soft'' = \<lparr>hard = - 1, medium = 0, soft = 0\<rparr>"
  by code_simp

lemma components_0hard_0soft:
  "getScoreComponents ''0hard/0soft'' = \<lparr>hard = 0, medium = 0, soft = 0\<rparr>"
  by code_simp

lemma components_2hard_0soft:
  "getScoreComponents ''2hard/0soft'' = \<lparr>hard = 2, medium = 0, soft = 0\<rparr>"
  by code_simp

lemma components_1hard_m1soft:
  "getScoreComponents ''1hard/-1soft'' = \<lparr>hard = 1, medium = 0, soft = - 1\<rparr>"
  by code_simp

text \<open>
  Claim C1 (the comparator of \<open>analyze\<close> implements the lexicographic score order and
  never looks at medium or soft when hard decides), evaluated on the code. For
  \<open>a.score = "0hard/-5soft"\<close> and \<open>b.score = "-1hard/0soft"\<close> the hard level puts
  \<open>b\<close> first, yet the comparator returns \<open>-5\<close> and so puts \<open>a\<close> first; with the soft
  entry of \<open>a\<close> changed to \<open>0\<close> and the same two hard entries it returns \<open>0\<close>: when
  \<open>Math.abs(a.hard) < Math.abs(b.hard)\<close> no branch returns a positive number, and the
  code falls through to the medium and soft levels. For \<open>a.score = "2hard/0soft"\<close> and
  \<open>b.score = "1hard/-1soft"\<close> the hard level puts \<open>a\<close> first, yet the second line of
  the comparator, which reads \<open>bComponents.soft\<close>, returns \<open>1\<close>.
\<close>

theorem compare_constraints_not_lexicographic:
  "compare_constraints
     \<lparr>ca_name = ''a'', ca_weight = ''0hard/-1soft'', ca_score = ''0hard/-5soft'', ca_matches = []\<rparr>
     \<lparr>ca_name = ''b'', ca_weight = ''-1hard/0soft'', ca_score = ''-1hard/0soft'', ca_matches = []\<rparr>
     = - 5
   \<and> score_precedes (getScoreComponents ''-1hard/0soft'') (getScoreComponents ''0hard/-5soft'')
   \<and> \<not> score_precedes (getScoreComponents ''0hard/-5soft'') (getScoreComponents ''-1hard/0soft'')
   \<and> compare_constraints
     \<lparr>ca_name = ''a'', ca_weight = ''0hard/-1soft'', ca_score = ''0hard/0soft'', ca_matches = []\<rparr>
     \<lparr>ca_name = ''b'', ca_weight = ''-1hard/0soft'', ca_score = ''-1hard/0soft'', ca_matches = []\<rparr>
     = 0
   \<and> compare_constraints
     \<lparr>ca_name = ''a'', ca_weight = ''1hard/0soft'', ca_score = ''2hard/0soft'', ca_matches = []\<rparr>
     \<lparr>ca_name = ''b'', ca_weight = ''1hard/-1soft'', ca_score = ''1hard/-1soft'', ca_matches = []\<rparr>
     = 1
   \<and> score_precedes (getScoreComponents ''2hard/0soft'') (getScoreComponents ''1hard/-1soft'')"
  by (simp add: compare_constraints_def compare_components_def score_precedes_def
        level_precedes_def components_0hard_m5soft components_m1hard_0soft
        components_0hard_0soft components_2hard_0soft components_1hard_m1soft)

end
